theory Spec2Isabelle
  imports Complex_Main "HOL-Library.AList"
begin

section \<open>Python values\<close>

text \<open>
  The orchestrator's configuration, the payloads decoded from a model completion and the
  parameters of a tool are all dynamically typed Python values. A dictionary keeps its
  insertion order, so it is an association list; its keys are strings, as the source's
  annotations \<^verbatim>\<open>Dict[str, Any]\<close> say. No modelled operation computes with a
  float, so a float is identified by a decimal literal that denotes it.
\<close>

datatype pyval =
    VNone
  | VBool bool
  | VInt int
  | VFloat string
  | VStr string
  | VList "pyval list"
  | VDict "(string \<times> pyval) list"

type_synonym pydict = "(string \<times> pyval) list"

text \<open>
  The exceptions that the modelled code can meet. \<^verbatim>\<open>JSONDecodeError\<close> is a class
  of its own: an \<^verbatim>\<open>except json.JSONDecodeError\<close> clause catches it and none of the
  others.
\<close>

datatype py_exn =
    AttributeError | TypeError | KeyError | OSError | YAMLError | AgentError
  | JSONDecodeError | ValueError | RecursionError

text \<open>\<^verbatim>\<open>d.get(key, default)\<close> on a dictionary.\<close>

definition dict_get :: "pydict \<Rightarrow> string \<Rightarrow> pyval \<Rightarrow> pyval" where
  "dict_get d key dflt = (case map_of d key of None \<Rightarrow> dflt | Some v \<Rightarrow> v)"

text \<open>
  \<^verbatim>\<open>x.get(key, default)\<close> on an arbitrary value: only a dictionary has the
  method, every other value raises \<^verbatim>\<open>AttributeError\<close>.
\<close>

definition py_get :: "pyval \<Rightarrow> string \<Rightarrow> pyval \<Rightarrow> py_exn + pyval" where
  "py_get x key dflt = (case x of VDict d \<Rightarrow> Inr (dict_get d key dflt) | _ \<Rightarrow> Inl AttributeError)"

text \<open>
  A slice \<^verbatim>\<open>xs[start:]\<close>: a negative start counts from the end, and the start is
  clamped to the list.
\<close>

definition py_slice_from :: "'a list \<Rightarrow> int \<Rightarrow> 'a list" where
  "py_slice_from xs start =
     (let n = int (length xs);
          s = (if start < 0 then max 0 (start + n) else min start n)
      in drop (nat s) xs)"

section \<open>Orchestrator: configuration\<close>

text \<open>
  \<^verbatim>\<open>_merge_configs\<close>: the result starts as a copy of the default; every item of the
  override is written into it, merged recursively when both sides are dictionaries.
  \<^verbatim>\<open>result[key] = v\<close> keeps the position of a key already there and appends a new
  one, which is \<^const>\<open>AList.update\<close>.
\<close>

function merge_items :: "pydict \<Rightarrow> pydict \<Rightarrow> pydict" where
  "merge_items res [] = res"
| "merge_items res ((key, v) # items) =
     merge_items
       (AList.update key
          (case (map_of res key, v) of
             (Some (VDict d), VDict ov) \<Rightarrow> VDict (merge_items d ov)
           | _ \<Rightarrow> v)
          res)
       items"
  by pat_completeness auto
termination
  by (relation "measure (\<lambda>(r, items). size_list (size_prod (\<lambda>_. 0) size) items)") auto

definition merge_configs :: "pydict \<Rightarrow> pydict \<Rightarrow> pydict" where
  "merge_configs dflt override = merge_items dflt override"

definition default_config :: pydict where
  "default_config =
     [(''agent'', VDict
         [(''name'', VStr ''jafs''),
          (''mode'', VStr ''single''),
          (''max_iterations'', VInt 10),
          (''complexity_threshold'', VInt 7)]),
      (''memory'', VDict
         [(''short_term'', VDict [(''capacity'', VInt 1000), (''ttl'', VInt 3600)]),
          (''long_term'', VDict
             [(''enabled'', VBool True),
              (''storage_path'', VNone),
              (''index_in_memory'', VBool True)])]),
      (''models'', VDict
         [(''default'', VDict
             [(''provider'', VStr ''openai''),
              (''model'', VStr ''gpt-4''),
              (''temperature'', VFloat ''0.0'')])]),
      (''tools'', VDict [(''enabled'', VList [])])]"

text \<open>
  The body of the \<^verbatim>\<open>try\<close> block of \<^verbatim>\<open>_load_config\<close>. Its input is the outcome
  of opening the file and of \<^verbatim>\<open>yaml.safe_load\<close>: an exception, or the value read.
  \<^verbatim>\<open>override.items()\<close> raises on anything but a dictionary, and so does the
  \<^verbatim>\<open>.get("mode")\<close> of the logging test when the merged \<^verbatim>\<open>agent\<close> entry is not a
  dictionary.
\<close>

definition load_config_try :: "py_exn + pyval \<Rightarrow> py_exn + pydict" where
  "load_config_try file_yaml =
     (case file_yaml of
        Inl e \<Rightarrow> Inl e
      | Inr cfg \<Rightarrow>
          (case cfg of
             VDict override \<Rightarrow>
               (let merged_config = merge_configs default_config override in
                case py_get (dict_get merged_config ''agent'' (VDict [])) ''mode'' VNone of
                  Inl e \<Rightarrow> Inl e
                | Inr _ \<Rightarrow> Inr merged_config)
           | _ \<Rightarrow> Inl AttributeError))"

text \<open>
  \<^verbatim>\<open>_load_config\<close>: \<open>path_exists\<close> is the answer of \<^verbatim>\<open>os.path.exists\<close>. The
  \<^verbatim>\<open>except Exception\<close> clause turns every exception of the body into the default
  configuration.
\<close>

definition load_config :: "bool \<Rightarrow> py_exn + pyval \<Rightarrow> py_exn + pydict" where
  "load_config path_exists file_yaml =
     (if \<not> path_exists then Inr default_config
      else (case load_config_try file_yaml of
              Inr merged_config \<Rightarrow> Inr merged_config
            | Inl e \<Rightarrow> Inr default_config))"

section \<open>Orchestrator: task history\<close>

text \<open>
  The record that \<^verbatim>\<open>execute_task\<close> builds for each task. The clock readings of
  \<^verbatim>\<open>time.time()\<close> are inputs of the model.
\<close>

record task_record =
  task :: string
  mode :: pyval
  start_time :: real
  execution_time :: real
  status :: string
  result :: pyval

record orchestrator =
  config :: pydict
  last_result :: pyval
  task_history :: "task_record list"

text \<open>The fields that \<^verbatim>\<open>__init__\<close> sets, for a loaded configuration.\<close>

definition init_orchestrator :: "pydict \<Rightarrow> orchestrator" where
  "init_orchestrator cfg = \<lparr>config = cfg, last_result = VDict [], task_history = []\<rparr>"

text \<open>
  \<^verbatim>\<open>execute_task\<close>. The primary agent is built by \<^verbatim>\<open>jafs.core.agent\<close>: its
  \<^verbatim>\<open>execute\<close> is a parameter, which answers with a result or raises. \<open>t0\<close> and
  \<open>t1\<close> are the clock readings before and after the call. Logging is left out.
\<close>

definition resolve_mode :: "orchestrator \<Rightarrow> string option \<Rightarrow> py_exn + pyval" where
  "resolve_mode orch md_arg =
     (case md_arg of
        Some m \<Rightarrow> Inr (VStr m)
      | None \<Rightarrow> py_get (dict_get (config orch) ''agent'' (VDict [])) ''mode'' (VStr ''single''))"

definition execute_task ::
  "(string \<Rightarrow> pyval \<Rightarrow> py_exn + pyval) \<Rightarrow> real \<Rightarrow> real \<Rightarrow> orchestrator \<Rightarrow> string \<Rightarrow>
   string option \<Rightarrow> py_exn + (pyval \<times> orchestrator)" where
  "execute_task agent_execute t0 t1 orch tsk md_arg =
     (case resolve_mode orch md_arg of
        Inl e \<Rightarrow> Inl e
      | Inr md \<Rightarrow>
          (case agent_execute tsk md of
             Inl e \<Rightarrow> Inl e
           | Inr res \<Rightarrow>
               (let task_rec = \<lparr>task = tsk, mode = md, start_time = t0,
                                execution_time = t1 - t0, status = ''completed'',
                                result = res\<rparr>
                in Inr (res, orch\<lparr>task_history := task_history orch @ [task_rec],
                                   last_result := res\<rparr>))))"

text \<open>\<^verbatim>\<open>get_task_history\<close>: \<^verbatim>\<open>self.task_history[-limit:]\<close>.\<close>

definition get_task_history :: "orchestrator \<Rightarrow> int \<Rightarrow> task_record list" where
  "get_task_history orch limit = py_slice_from (task_history orch) (- limit)"

text \<open>
  The states an orchestrator can be in: the one \<^verbatim>\<open>__init__\<close> leaves, and any state
  that a call of \<^verbatim>\<open>execute_task\<close> which returns leaves. A call that raises has not
  touched the state, and the other methods only read it.
\<close>

inductive reachable :: "orchestrator \<Rightarrow> bool" where
  init: "reachable (init_orchestrator cfg)"
| step: "reachable orch \<Longrightarrow> execute_task agent_execute t0 t1 orch tsk md_arg = Inr (res, orch')
         \<Longrightarrow> reachable orch'"

section \<open>Python strings\<close>

text \<open>
  Text is modelled over ASCII: the keywords, the fence markers and the JSON syntax all lie
  there. \<open>is_space\<close> is \<^verbatim>\<open>str.isspace\<close> (and \<^verbatim>\<open>\s\<close>), \<open>is_word\<close> is
  \<^verbatim>\<open>\w\<close>, \<open>strip\<close>, \<open>lower\<close> and \<open>capitalize\<close> are the methods of
  \<^verbatim>\<open>str\<close>, \<open>split_nl\<close> is \<^verbatim>\<open>s.split("\n")\<close>, \<open>is_substring a b\<close> is
  \<^verbatim>\<open>a in b\<close>, \<open>replace_empty s old\<close> is \<^verbatim>\<open>s.replace(old, "")\<close> and
  \<open>str_of_nat\<close> the decimal text of a number in an f-string.
\<close>

definition is_space :: "char \<Rightarrow> bool" where
  "is_space c = (c \<in> set [CHR 0x09, CHR 0x0A, CHR 0x0B, CHR 0x0C, CHR 0x0D,
                            CHR 0x1C, CHR 0x1D, CHR 0x1E, CHR 0x1F, CHR '' ''])"

definition is_word :: "char \<Rightarrow> bool" where
  "is_word c = (c \<in> set (''abcdefghijklmnopqrstuvwxyz'' @ ''ABCDEFGHIJKLMNOPQRSTUVWXYZ''
                           @ ''0123456789_''))"

definition lower_char :: "char \<Rightarrow> char" where
  "lower_char c =
     (case map_of (zip ''ABCDEFGHIJKLMNOPQRSTUVWXYZ'' ''abcdefghijklmnopqrstuvwxyz'') c of
        Some d \<Rightarrow> d
      | None \<Rightarrow> c)"

definition upper_char :: "char \<Rightarrow> char" where
  "upper_char c =
     (case map_of (zip ''abcdefghijklmnopqrstuvwxyz'' ''ABCDEFGHIJKLMNOPQRSTUVWXYZ'') c of
        Some d \<Rightarrow> d
      | None \<Rightarrow> c)"

definition lower :: "string \<Rightarrow> string" where
  "lower s = map lower_char s"

definition capitalize :: "string \<Rightarrow> string" where
  "capitalize s = (case s of [] \<Rightarrow> [] | c # cs \<Rightarrow> upper_char c # lower cs)"

definition strip :: "string \<Rightarrow> string" where
  "strip s = rev (dropWhile is_space (rev (dropWhile is_space s)))"

fun split_nl :: "string \<Rightarrow> string list" where
  "split_nl [] = [[]]"
| "split_nl (c # cs) =
     (if c = CHR 0x0A then [] # split_nl cs
      else (case split_nl cs of [] \<Rightarrow> [[c]] | l # ls \<Rightarrow> (c # l) # ls))"

definition startswith :: "string \<Rightarrow> string \<Rightarrow> bool" where
  "startswith s pre = (take (length pre) s = pre)"

definition endswith :: "string \<Rightarrow> string \<Rightarrow> bool" where
  "endswith s suf = (drop (length s - length suf) s = suf)"

fun is_substring :: "string \<Rightarrow> string \<Rightarrow> bool" where
  "is_substring sub [] = (sub = [])"
| "is_substring sub (c # cs) = (startswith (c # cs) sub \<or> is_substring sub cs)"

function replace_empty :: "string \<Rightarrow> string \<Rightarrow> string" where
  "replace_empty [] old = []"
| "replace_empty (c # cs) old =
     (if old \<noteq> [] \<and> startswith (c # cs) old
      then replace_empty (drop (length old) (c # cs)) old
      else c # replace_empty cs old)"
  by pat_completeness auto
termination
  by (relation "measure (\<lambda>(s, old). length s)") auto

definition digit_char :: "nat \<Rightarrow> char" where
  "digit_char d = ''0123456789'' ! d"

fun str_of_nat :: "nat \<Rightarrow> string" where
  "str_of_nat n =
     (if n < 10 then [digit_char n]
      else str_of_nat (n div 10) @ [digit_char (n mod 10)])"

declare str_of_nat.simps [simp del]

text \<open>
  \<^verbatim>\<open>re.search(r'\b' + keyword + r'\b', s)\<close> for a keyword of letters and spaces:
  the keyword stands at some position, with a word boundary on each side. A boundary is a
  position where exactly one of the two neighbouring characters is a word character; the
  ends of the text count as non-word.
\<close>

definition word_at :: "string \<Rightarrow> nat \<Rightarrow> bool" where
  "word_at s p = (p < length s \<and> is_word (s ! p))"

definition is_boundary :: "string \<Rightarrow> nat \<Rightarrow> bool" where
  "is_boundary s p = ((0 < p \<and> word_at s (p - 1)) \<noteq> word_at s p)"

definition match_word_at :: "string \<Rightarrow> string \<Rightarrow> nat \<Rightarrow> bool" where
  "match_word_at kw s i =
     (is_boundary s i \<and> take (length kw) (drop i s) = kw \<and> is_boundary s (i + length kw))"

definition search_word :: "string \<Rightarrow> string \<Rightarrow> bool" where
  "search_word kw s = list_ex (match_word_at kw s) [0..<Suc (length s)]"

section \<open>Task classifier\<close>

text \<open>
  \<^verbatim>\<open>detect_task_type\<close>: three loops, each of which sets the mode at the first keyword
  found and breaks.
\<close>

definition research_keywords :: "string list" where
  "research_keywords = [''research'', ''find'', ''search'', ''look up'', ''investigate'',
                        ''analyze'', ''study'', ''explore'', ''learn about'']"

definition calc_keywords :: "string list" where
  "calc_keywords = [''calculate'', ''compute'', ''solve'', ''evaluate'', ''what is'',
                    ''how much'', ''add'', ''subtract'', ''multiply'', ''divide'']"

definition creative_keywords :: "string list" where
  "creative_keywords = [''create'', ''generate'', ''write'', ''compose'', ''design'',
                        ''develop'', ''make'', ''build'', ''draft'']"

fun scan_keywords :: "string list \<Rightarrow> string \<Rightarrow> string \<Rightarrow> string \<Rightarrow> string" where
  "scan_keywords [] tsk new_mode cur_mode = cur_mode"
| "scan_keywords (keyword # kws) tsk new_mode cur_mode =
     (if search_word keyword (lower tsk) then new_mode
      else scan_keywords kws tsk new_mode cur_mode)"

definition detect_task_type :: "string \<Rightarrow> string" where
  "detect_task_type tsk =
     (let m = ''auto'';
          m = scan_keywords research_keywords tsk ''multi'' m;
          m = scan_keywords calc_keywords tsk ''single'' m;
          m = scan_keywords creative_keywords tsk ''multi'' m
      in m)"


section \<open>Tool-call extraction\<close>

text \<open>
  The second half of \<^verbatim>\<open>generate_with_tools\<close>, from the text the model answered.
  \<^verbatim>\<open>json.loads\<close> and \<^verbatim>\<open>json.dumps\<close> belong to the standard library and are
  parameters \<open>loads\<close> and \<open>dumps\<close>; \<open>loads\<close> gives \<open>None\<close> where
  \<^verbatim>\<open>json.loads\<close> raises.
\<close>

text \<open>
  The scan for fenced blocks of \<^verbatim>\<open>generate_with_tools\<close> and \<^verbatim>\<open>extract_json\<close>:
  the loop over the lines, with its three variables.
\<close>

fun scan_blocks :: "bool \<Rightarrow> string \<Rightarrow> string list \<Rightarrow> string list \<Rightarrow> string list" where
  "scan_blocks in_json_block json_content json_blocks [] = json_blocks"
| "scan_blocks in_json_block json_content json_blocks (line # lines) =
     (if strip line = ''```json'' \<or> strip line = ''```'' then
        (if in_json_block then scan_blocks False [] (json_blocks @ [json_content]) lines
         else scan_blocks True json_content json_blocks lines)
      else if in_json_block then
        scan_blocks in_json_block (json_content @ line @ ''\<newline>'') json_blocks lines
      else scan_blocks in_json_block json_content json_blocks lines)"

definition fenced_blocks :: "string \<Rightarrow> string list" where
  "fenced_blocks response_text = scan_blocks False [] [] (split_nl response_text)"

text \<open>\<^verbatim>\<open>key in x\<close>, \<^verbatim>\<open>x[key]\<close> for a string key, and the items a \<^verbatim>\<open>for\<close> loop visits.\<close>

definition py_contains :: "pyval \<Rightarrow> string \<Rightarrow> py_exn + bool" where
  "py_contains x key =
     (case x of
        VDict d \<Rightarrow> Inr (map_of d key \<noteq> None)
      | VList xs \<Rightarrow> Inr (List.member xs (VStr key))
      | VStr s \<Rightarrow> Inr (is_substring key s)
      | _ \<Rightarrow> Inl TypeError)"

definition py_subscript :: "pyval \<Rightarrow> string \<Rightarrow> py_exn + pyval" where
  "py_subscript x key =
     (case x of
        VDict d \<Rightarrow> (case map_of d key of None \<Rightarrow> Inl KeyError | Some v \<Rightarrow> Inr v)
      | _ \<Rightarrow> Inl TypeError)"

definition py_iter :: "pyval \<Rightarrow> py_exn + pyval list" where
  "py_iter x =
     (case x of
        VList xs \<Rightarrow> Inr xs
      | VStr s \<Rightarrow> Inr (map (\<lambda>c. VStr [c]) s)
      | VDict d \<Rightarrow> Inr (map (\<lambda>kv. VStr (fst kv)) d)
      | _ \<Rightarrow> Inl TypeError)"

definition normalized_tool_call :: "nat \<Rightarrow> pydict \<Rightarrow> pyval" where
  "normalized_tool_call n tool_call =
     VDict [(''id'', VStr (''call_'' @ str_of_nat n)),
            (''name'', dict_get tool_call ''name'' (VStr [])),
            (''arguments'', dict_get tool_call ''arguments'' (VDict []))]"

text \<open>
  The inner loop over \<^verbatim>\<open>data["tool_calls"]\<close>. An entry without \<^verbatim>\<open>.get\<close> raises;
  the calls appended before it stay in the list.
\<close>

fun normalize_calls :: "pyval list \<Rightarrow> pyval list \<Rightarrow> pyval list \<times> py_exn option" where
  "normalize_calls tcs [] = (tcs, None)"
| "normalize_calls tcs (tool_call # entries) =
     (case tool_call of
        VDict d \<Rightarrow> normalize_calls (tcs @ [normalized_tool_call (length tcs) d]) entries
      | _ \<Rightarrow> (tcs, Some AttributeError))"

text \<open>
  The body of the loop over the blocks. Whatever is raised inside the \<^verbatim>\<open>try\<close> goes to
  \<^verbatim>\<open>except: continue\<close>, which leaves the visible content as it was.
\<close>

definition process_block ::
  "(string \<Rightarrow> pyval option) \<Rightarrow> pyval list \<times> string \<Rightarrow> string \<Rightarrow> pyval list \<times> string" where
  "process_block loads st json_block =
     (case st of (tcs, cont) \<Rightarrow>
       (case loads json_block of
          None \<Rightarrow> (tcs, cont)
        | Some dat \<Rightarrow>
            (case py_contains dat ''tool_calls'' of
               Inl e \<Rightarrow> (tcs, cont)
             | Inr False \<Rightarrow> (tcs, cont)
             | Inr True \<Rightarrow>
                 (case py_subscript dat ''tool_calls'' of
                    Inl e \<Rightarrow> (tcs, cont)
                  | Inr v \<Rightarrow>
                      (case py_iter v of
                         Inl e \<Rightarrow> (tcs, cont)
                       | Inr entries \<Rightarrow>
                           (case normalize_calls tcs entries of
                              (tcs', Some e) \<Rightarrow> (tcs', cont)
                            | (tcs', None) \<Rightarrow>
                                (tcs',
                                 replace_empty
                                   (replace_empty cont
                                      (''```json\<newline>'' @ json_block @ ''\<newline>```''))
                                   (''```\<newline>'' @ json_block @ ''\<newline>```''))))))))"

definition candidate_blocks ::
  "(string \<Rightarrow> pyval option) \<Rightarrow> (pyval \<Rightarrow> string) \<Rightarrow> string \<Rightarrow> string list" where
  "candidate_blocks loads dumps response_text =
     (let json_blocks = fenced_blocks response_text in
      if json_blocks = [] then
        (case loads response_text of
           Some json_data \<Rightarrow> [dumps json_data]
         | None \<Rightarrow> [])
      else json_blocks)"

definition extract_tool_calls ::
  "(string \<Rightarrow> pyval option) \<Rightarrow> (pyval \<Rightarrow> string) \<Rightarrow> string \<Rightarrow> string \<times> pyval list" where
  "extract_tool_calls loads dumps response_text =
     (case foldl (process_block loads) ([], response_text)
             (candidate_blocks loads dumps response_text) of
        (tool_calls, cont) \<Rightarrow> (strip cont, tool_calls))"

section \<open>Structured extraction\<close>

text \<open>
  \<^verbatim>\<open>extract_json\<close>, from the text the model answered. \<open>loads\<close> stands for
  \<^verbatim>\<open>json.loads\<close> and gives the value decoded or the exception raised:
  \<^verbatim>\<open>JSONDecodeError\<close> on a text that is not a JSON document, and also, on some texts,
  another exception (\<^verbatim>\<open>ValueError\<close> on an integer literal of more digits than the
  interpreter converts, \<^verbatim>\<open>RecursionError\<close> on nesting deeper than its stack allows).
  The parse of the whole response stands under \<^verbatim>\<open>except json.JSONDecodeError\<close>, so
  any other exception leaves the function. The parses of the lines and of the blocks stand
  under a bare \<^verbatim>\<open>except\<close>, which goes on to the next candidate whatever was raised.
\<close>

fun try_lines :: "(string \<Rightarrow> py_exn + pyval) \<Rightarrow> string list \<Rightarrow> pyval option" where
  "try_lines loads [] = None"
| "try_lines loads (line # lines) =
     (if startswith (strip line) ''{'' \<and> endswith (strip line) ''}'' then
        (case loads (strip line) of
           Inr v \<Rightarrow> Some v
         | Inl e \<Rightarrow> try_lines loads lines)
      else try_lines loads lines)"

fun try_blocks :: "(string \<Rightarrow> py_exn + pyval) \<Rightarrow> string list \<Rightarrow> pyval option" where
  "try_blocks loads [] = None"
| "try_blocks loads (json_block # json_blocks) =
     (case loads json_block of
        Inr v \<Rightarrow> Some v
      | Inl e \<Rightarrow> try_blocks loads json_blocks)"

definition parse_error_result :: pyval where
  "parse_error_result = VDict [(''error'', VStr ''Failed to parse JSON response'')]"

definition extract_json :: "(string \<Rightarrow> py_exn + pyval) \<Rightarrow> string \<Rightarrow> py_exn + pyval" where
  "extract_json loads response_text =
     (case loads response_text of
        Inr v \<Rightarrow> Inr v
      | Inl e \<Rightarrow>
          if e = JSONDecodeError then
            (case try_lines loads (split_nl response_text) of
               Some v \<Rightarrow> Inr v
             | None \<Rightarrow>
                 (case try_blocks loads (fenced_blocks response_text) of
                    Some v \<Rightarrow> Inr v
                  | None \<Rightarrow> Inr parse_error_result))
          else Inl e)"


section \<open>A JSON decoder and encoder\<close>

text \<open>
  \<open>json_loads_exn\<close> and \<open>json_dumps\<close> follow \<^verbatim>\<open>json.loads\<close> and
  \<^verbatim>\<open>json.dumps\<close> with their default options, on ASCII text and without
  \<^verbatim>\<open>\u\<close> escapes in the input. They serve to run the extraction on concrete
  completions. The decoder is a lexer (one state machine over the characters) followed by
  a parser with an explicit stack of the lists and dictionaries that are still open; a key
  given twice keeps its first position and its last value, as in a Python dictionary. A
  float is printed by the literal that identifies it.

  The decoder reads from left to right and stops at the first thing that goes wrong. A
  text that is not a JSON document gives \<^verbatim>\<open>JSONDecodeError\<close>. An integer literal is
  converted by \<^verbatim>\<open>int\<close> when the parser takes it as a value, and \<^verbatim>\<open>int\<close> raises
  \<^verbatim>\<open>ValueError\<close> on more than 4300 digits (the default limit of Python 3.11 and
  later). The depth at which nesting exhausts the interpreter's stack is not a property
  of the text and is not modelled here. \<open>json_loads\<close> is the decoder as a bare
  \<^verbatim>\<open>except\<close> sees it: a value, or nothing.
\<close>

datatype token =
    TLBrace | TRBrace | TLBrack | TRBrack | TColon | TComma
  | TVal pyval | TRaise py_exn | TErr

datatype lex_state = LStart | LStr string | LEsc string | LWord string

definition max_str_digits :: nat where
  "max_str_digits = 4300"

definition is_digit :: "char \<Rightarrow> bool" where
  "is_digit c = (c \<in> set ''0123456789'')"

definition digit_val :: "char \<Rightarrow> nat" where
  "digit_val c =
     (case map_of (zip ''0123456789'' [0, 1, 2, 3, 4, 5, 6, 7, 8, 9]) c of
        Some d \<Rightarrow> d
      | None \<Rightarrow> 0)"

definition nat_of_digits :: "string \<Rightarrow> nat" where
  "nat_of_digits ds = foldl (\<lambda>a c. 10 * a + digit_val c) 0 ds"

text \<open>
  A number is the longest start of the word that fits
  \<^verbatim>\<open>(-?(?:0|[1-9]\d*))(\.\d+)?([eE][-+]?\d+)?\<close>: \<open>int_part\<close>, \<open>frac_part\<close> and
  \<open>exp_part\<close> are the three groups. Without fraction and exponent the integer part is
  converted at once; characters left over after the number make the text malformed.
\<close>

definition int_part :: "string \<Rightarrow> string" where
  "int_part body =
     (if body \<noteq> [] \<and> hd body = CHR ''0'' then ''0'' else takeWhile is_digit body)"

definition frac_part :: "string \<Rightarrow> string" where
  "frac_part r =
     (if r \<noteq> [] \<and> hd r = CHR ''.'' \<and> takeWhile is_digit (tl r) \<noteq> []
      then CHR ''.'' # takeWhile is_digit (tl r)
      else [])"

definition exp_part :: "string \<Rightarrow> string" where
  "exp_part r =
     (if r \<noteq> [] \<and> (hd r = CHR ''e'' \<or> hd r = CHR ''E'') then
        (let sgn = (if tl r \<noteq> [] \<and> (hd (tl r) = CHR ''+'' \<or> hd (tl r) = CHR ''-'')
                    then [hd (tl r)] else []);
             ds = takeWhile is_digit (drop (length sgn) (tl r))
         in if ds = [] then [] else hd r # sgn @ ds)
      else [])"

definition number_token :: "string \<Rightarrow> token" where
  "number_token w =
     (let neg = (w \<noteq> [] \<and> hd w = CHR ''-'');
          body = (if neg then tl w else w);
          ip = int_part body;
          r1 = drop (length ip) body;
          fr = frac_part r1;
          r2 = drop (length fr) r1;
          ex = exp_part r2;
          r3 = drop (length ex) r2
      in if ip = [] then TErr
         else if fr = [] \<and> ex = [] then
           (if max_str_digits < length ip then TRaise ValueError
            else if r3 = [] then
              TVal (VInt (if neg then - int (nat_of_digits ip) else int (nat_of_digits ip)))
            else TErr)
         else if r3 = [] then TVal (VFloat w)
         else TErr)"

definition word_token :: "string \<Rightarrow> token" where
  "word_token w =
     (if w = ''true'' then TVal (VBool True)
      else if w = ''false'' then TVal (VBool False)
      else if w = ''null'' then TVal VNone
      else if w = ''NaN'' \<or> w = ''Infinity'' \<or> w = ''-Infinity'' then TVal (VFloat w)
      else number_token w)"

definition is_wordish :: "char \<Rightarrow> bool" where
  "is_wordish c = (c \<in> set (''abcdefghijklmnopqrstuvwxyz'' @ ''ABCDEFGHIJKLMNOPQRSTUVWXYZ''
                              @ ''0123456789+-.''))"

definition start_char :: "char \<Rightarrow> (token list \<times> lex_state) option" where
  "start_char c =
     (if c \<in> set [CHR '' '', CHR 0x09, CHR 0x0A, CHR 0x0D] then Some ([], LStart)
      else if c = CHR ''{'' then Some ([TLBrace], LStart)
      else if c = CHR ''}'' then Some ([TRBrace], LStart)
      else if c = CHR ''['' then Some ([TLBrack], LStart)
      else if c = CHR '']'' then Some ([TRBrack], LStart)
      else if c = CHR '':'' then Some ([TColon], LStart)
      else if c = CHR '','' then Some ([TComma], LStart)
      else if c = CHR 0x22 then Some ([], LStr [])
      else if is_wordish c then Some ([], LWord [c])
      else None)"

definition json_escapes :: "(char \<times> char) list" where
  "json_escapes =
     [(CHR 0x22, CHR 0x22), (CHR 0x5C, CHR 0x5C), (CHR ''/'', CHR ''/''),
      (CHR ''b'', CHR 0x08), (CHR ''f'', CHR 0x0C), (CHR ''n'', CHR 0x0A),
      (CHR ''r'', CHR 0x0D), (CHR ''t'', CHR 0x09)]"

text \<open>
  The lexer. \<open>TErr\<close> marks the place where the text stops being JSON, and \<open>TRaise\<close>
  a literal whose conversion raises; the parser meets them in the order of the text.
\<close>

fun lex :: "lex_state \<Rightarrow> string \<Rightarrow> token list" where
  "lex LStart [] = []"
| "lex (LStr acc) [] = [TErr]"
| "lex (LEsc acc) [] = [TErr]"
| "lex (LWord w) [] = [word_token w]"
| "lex LStart (c # cs) =
     (case start_char c of
        None \<Rightarrow> [TErr]
      | Some (ts, st) \<Rightarrow> ts @ lex st cs)"
| "lex (LStr acc) (c # cs) =
     (if c = CHR 0x22 then TVal (VStr acc) # lex LStart cs
      else if c = CHR 0x5C then lex (LEsc acc) cs
      else if (of_char c :: nat) < 32 then [TErr]
      else lex (LStr (acc @ [c])) cs)"
| "lex (LEsc acc) (c # cs) =
     (case map_of json_escapes c of
        None \<Rightarrow> [TErr]
      | Some d \<Rightarrow> lex (LStr (acc @ [d])) cs)"
| "lex (LWord w) (c # cs) =
     (if is_wordish c then lex (LWord (w @ [c])) cs
      else word_token w #
           (case start_char c of
              None \<Rightarrow> [TErr]
            | Some (ts, st) \<Rightarrow> ts @ lex st cs))"

datatype frame = FList "pyval list" | FDict pydict "string option"

datatype pstate = PValue | PArrStart | PObjStart | PKey | PColon | PAfter | PDone pyval

text \<open>A step of the parser that finds no continuation is a \<^verbatim>\<open>JSONDecodeError\<close>.\<close>

definition malformed :: "'a option \<Rightarrow> py_exn + 'a" where
  "malformed x = (case x of None \<Rightarrow> Inl JSONDecodeError | Some y \<Rightarrow> Inr y)"

fun complete :: "pyval \<Rightarrow> frame list \<Rightarrow> (pstate \<times> frame list) option" where
  "complete v [] = Some (PDone v, [])"
| "complete v (FList xs # fs) = Some (PAfter, FList (xs @ [v]) # fs)"
| "complete v (FDict d (Some k) # fs) = Some (PAfter, FDict (AList.update k v d) None # fs)"
| "complete v (FDict d None # fs) = None"

fun open_value :: "token \<Rightarrow> frame list \<Rightarrow> py_exn + (pstate \<times> frame list)" where
  "open_value (TVal v) fs = malformed (complete v fs)"
| "open_value (TRaise e) fs = Inl e"
| "open_value TLBrack fs = Inr (PArrStart, FList [] # fs)"
| "open_value TLBrace fs = Inr (PObjStart, FDict [] None # fs)"
| "open_value _ fs = Inl JSONDecodeError"

fun close_list :: "frame list \<Rightarrow> (pstate \<times> frame list) option" where
  "close_list (FList xs # fs) = complete (VList xs) fs"
| "close_list _ = None"

fun close_dict :: "frame list \<Rightarrow> (pstate \<times> frame list) option" where
  "close_dict (FDict d None # fs) = complete (VDict d) fs"
| "close_dict _ = None"

fun take_key :: "token \<Rightarrow> frame list \<Rightarrow> (pstate \<times> frame list) option" where
  "take_key (TVal (VStr k)) (FDict d None # fs) = Some (PColon, FDict d (Some k) # fs)"
| "take_key _ _ = None"

fun pstep :: "pstate \<times> frame list \<Rightarrow> token \<Rightarrow> py_exn + (pstate \<times> frame list)" where
  "pstep (PValue, fs) t = open_value t fs"
| "pstep (PArrStart, fs) t =
     (if t = TRBrack then malformed (close_list fs) else open_value t fs)"
| "pstep (PObjStart, fs) t =
     (if t = TRBrace then malformed (close_dict fs) else malformed (take_key t fs))"
| "pstep (PKey, fs) t = malformed (take_key t fs)"
| "pstep (PColon, fs) t = (if t = TColon then Inr (PValue, fs) else Inl JSONDecodeError)"
| "pstep (PAfter, fs) t =
     (if t = TRBrack then malformed (close_list fs)
      else if t = TRBrace then malformed (close_dict fs)
      else if t = TComma then
        (case fs of
           FList xs # fs' \<Rightarrow> Inr (PValue, fs)
         | FDict d None # fs' \<Rightarrow> Inr (PKey, fs)
         | _ \<Rightarrow> Inl JSONDecodeError)
      else Inl JSONDecodeError)"
| "pstep (PDone v, fs) t = Inl JSONDecodeError"

fun parse_tokens ::
  "pstate \<times> frame list \<Rightarrow> token list \<Rightarrow> py_exn + (pstate \<times> frame list)" where
  "parse_tokens st [] = Inr st"
| "parse_tokens st (t # ts) =
     (case pstep st t of Inl e \<Rightarrow> Inl e | Inr st' \<Rightarrow> parse_tokens st' ts)"

definition json_loads_exn :: "string \<Rightarrow> py_exn + pyval" where
  "json_loads_exn s =
     (case parse_tokens (PValue, []) (lex LStart s) of
        Inl e \<Rightarrow> Inl e
      | Inr (PDone v, []) \<Rightarrow> Inr v
      | Inr _ \<Rightarrow> Inl JSONDecodeError)"

definition json_loads :: "string \<Rightarrow> pyval option" where
  "json_loads s = (case json_loads_exn s of Inr v \<Rightarrow> Some v | Inl e \<Rightarrow> None)"

definition hex4 :: "nat \<Rightarrow> string" where
  "hex4 n = ''00'' @ [''0123456789abcdef'' ! (n div 16 mod 16), ''0123456789abcdef'' ! (n mod 16)]"

definition dumps_char :: "char \<Rightarrow> string" where
  "dumps_char c =
     (case map_of [(CHR 0x22, [CHR 0x5C, CHR 0x22]), (CHR 0x5C, [CHR 0x5C, CHR 0x5C]),
                   (CHR 0x0A, [CHR 0x5C, CHR ''n'']), (CHR 0x0D, [CHR 0x5C, CHR ''r'']),
                   (CHR 0x09, [CHR 0x5C, CHR ''t'']), (CHR 0x08, [CHR 0x5C, CHR ''b'']),
                   (CHR 0x0C, [CHR 0x5C, CHR ''f''])] c of
        Some e \<Rightarrow> e
      | None \<Rightarrow>
          if (of_char c :: nat) < 32 \<or> 126 < (of_char c :: nat)
          then [CHR 0x5C, CHR ''u''] @ hex4 (of_char c)
          else [c])"

definition dumps_str :: "string \<Rightarrow> string" where
  "dumps_str s = [CHR 0x22] @ concat (map dumps_char s) @ [CHR 0x22]"

fun join :: "string \<Rightarrow> string list \<Rightarrow> string" where
  "join sep [] = []"
| "join sep [x] = x"
| "join sep (x # y # ys) = x @ sep @ join sep (y # ys)"

fun json_dumps :: "pyval \<Rightarrow> string" where
  "json_dumps VNone = ''null''"
| "json_dumps (VBool b) = (if b then ''true'' else ''false'')"
| "json_dumps (VInt i) = (if i < 0 then ''-'' @ str_of_nat (nat (- i)) else str_of_nat (nat i))"
| "json_dumps (VFloat f) = f"
| "json_dumps (VStr s) = dumps_str s"
| "json_dumps (VList xs) = ''['' @ join '', '' (map json_dumps xs) @ '']''"
| "json_dumps (VDict d) =
     ''{'' @ join '', '' (map (\<lambda>kv. dumps_str (fst kv) @ '': '' @ json_dumps (snd kv)) d) @ ''}''"


section \<open>DirectResponseTool\<close>

record tool_result =
  success :: bool
  message :: string
  data :: pyval

definition tool_creative_keywords :: "string list" where
  "tool_creative_keywords =
     [''write'', ''compose'', ''create'', ''generate'', ''draft'',
      ''poem'', ''story'', ''essay'', ''article'', ''letter'',
      ''song'', ''lyrics'', ''script'', ''dialogue'', ''narrative'',
      ''fiction'', ''creative'', ''imagine'', ''fantasy'']"

fun any_keyword :: "string list \<Rightarrow> string \<Rightarrow> bool" where
  "any_keyword [] prompt = False"
| "any_keyword (keyword # kws) prompt =
     (if search_word keyword (lower prompt) then True else any_keyword kws prompt)"

definition is_creative_task :: "string \<Rightarrow> bool" where
  "is_creative_task prompt = any_keyword tool_creative_keywords prompt"

definition determine_task_type :: "string \<Rightarrow> string" where
  "determine_task_type prompt =
     (if is_substring ''poem'' (lower prompt) then ''poem''
      else if is_substring ''story'' (lower prompt) then ''story''
      else if is_substring ''essay'' (lower prompt) then ''essay''
      else if is_substring ''article'' (lower prompt) then ''article''
      else if is_substring ''letter'' (lower prompt) then ''letter''
      else if is_substring ''song'' (lower prompt) \<or> is_substring ''lyrics'' (lower prompt)
        then ''song''
      else if is_substring ''script'' (lower prompt) then ''script''
      else if is_substring ''dialogue'' (lower prompt) then ''dialogue''
      else ''creative text'')"

text \<open>
  The regular expression \<^verbatim>\<open>(?:about|on|regarding)\s+(\w+(?:\s+\w+)*)\<close> of
  \<^verbatim>\<open>_create_context_prompt\<close>. \<open>more_words\<close> is the greedy \<^verbatim>\<open>(?:\s+\w+)*\<close>,
  \<open>topic_after\<close> what follows the alternation, \<open>topic_here\<close> the match at one position
  with the alternatives in their order, \<open>search_topic\<close> the leftmost match; each gives the
  text of group 1.
\<close>

function more_words :: "string \<Rightarrow> string" where
  "more_words s =
     (if takeWhile is_space s = [] \<or> takeWhile is_word (dropWhile is_space s) = [] then []
      else takeWhile is_space s @ takeWhile is_word (dropWhile is_space s)
           @ more_words (dropWhile is_word (dropWhile is_space s)))"
  by pat_completeness auto
termination
proof (relation "measure length")
  show "wf (measure length)" by simp
next
  fix s :: string
  assume "\<not> (takeWhile is_space s = [] \<or> takeWhile is_word (dropWhile is_space s) = [])"
  then have "s \<noteq> []" "is_space (hd s)"
    by (auto simp: takeWhile_eq_Nil_iff)
  then have "length (dropWhile is_space s) < length s"
    by (cases s) (auto simp: le_imp_less_Suc length_dropWhile_le)
  moreover have "length (dropWhile is_word (dropWhile is_space s)) \<le> length (dropWhile is_space s)"
    by (rule length_dropWhile_le)
  ultimately show "(dropWhile is_word (dropWhile is_space s), s) \<in> measure length"
    by simp
qed

declare more_words.simps [simp del]


definition topic_after :: "string \<Rightarrow> string option" where
  "topic_after s =
     (if takeWhile is_space s = [] \<or> takeWhile is_word (dropWhile is_space s) = [] then None
      else Some (takeWhile is_word (dropWhile is_space s)
                 @ more_words (dropWhile is_word (dropWhile is_space s))))"

fun topic_here :: "string list \<Rightarrow> string \<Rightarrow> string option" where
  "topic_here [] s = None"
| "topic_here (alt # alts) s =
     (if startswith s alt then
        (case topic_after (drop (length alt) s) of
           Some t \<Rightarrow> Some t
         | None \<Rightarrow> topic_here alts s)
      else topic_here alts s)"

fun search_topic :: "string \<Rightarrow> string option" where
  "search_topic [] = topic_here [''about'', ''on'', ''regarding''] []"
| "search_topic (c # cs) =
     (case topic_here [''about'', ''on'', ''regarding''] (c # cs) of
        Some t \<Rightarrow> Some t
      | None \<Rightarrow> search_topic cs)"

definition create_context_prompt :: "string \<Rightarrow> string \<Rightarrow> string" where
  "create_context_prompt prompt task_type =
     (let topic = (case search_topic (lower prompt) of Some t \<Rightarrow> t | None \<Rightarrow> []) in
      if task_type = ''poem'' then
        ''You are a skilled poet. Write a beautiful and thoughtful poem about '' @ topic
        @ ''. Be creative and expressive.''
      else if task_type = ''story'' then
        ''You are a talented storyteller. Write an engaging short story about '' @ topic
        @ ''. Include interesting characters and a compelling plot.''
      else if task_type = ''essay'' then
        ''You are an insightful essayist. Write a thoughtful essay about '' @ topic
        @ ''. Present clear arguments and support them with evidence.''
      else if task_type = ''article'' then
        ''You are a professional journalist. Write an informative article about '' @ topic
        @ ''. Present facts clearly and objectively.''
      else if task_type = ''letter'' then
        ''You are a skilled letter writer. Write a heartfelt letter about '' @ topic
        @ ''. Express your thoughts and feelings clearly.''
      else if task_type = ''song'' \<or> task_type = ''lyrics'' then
        ''You are a talented songwriter. Write lyrics for a song about '' @ topic
        @ ''. Be creative and expressive.''
      else if task_type = ''script'' then
        ''You are an experienced screenwriter. Write a script about '' @ topic
        @ ''. Include engaging dialogue and clear stage directions.''
      else if task_type = ''dialogue'' then
        ''You are a skilled dialogue writer. Write a dialogue about '' @ topic
        @ ''. Make the conversation flow naturally and reveal character.''
      else
        ''You are a creative writer. Write a thoughtful and engaging piece about '' @ topic
        @ ''. Be creative and expressive.'')"

text \<open>
  \<^verbatim>\<open>_execute\<close>. A prompt that is not a string has no \<^verbatim>\<open>.lower()\<close>, which raises.
  The context prompt is computed and not used, as in the source.
\<close>

definition execute :: "pydict \<Rightarrow> py_exn + tool_result" where
  "execute parameters =
     (case dict_get parameters ''prompt'' (VStr []) of
        VStr prompt \<Rightarrow>
          if \<not> is_creative_task prompt then
            Inr \<lparr>success = False,
                 message = ''This doesn'' @ [CHR 0x27]
                           @ ''t seem to be a creative task. Please try a different tool.'',
                 data = VNone\<rparr>
          else
            (let task_type = determine_task_type prompt;
                 context_prompt = create_context_prompt prompt task_type;
                 response = ''This is where the language model would generate a '' @ task_type
                            @ '' based on: '' @ prompt
             in Inr \<lparr>success = True,
                     message = capitalize task_type @ '' generated successfully'',
                     data = VDict [(''content'', VStr response)]\<rparr>)
      | _ \<Rightarrow> Inl AttributeError)"

section \<open>Specification-side notions\<close>

text \<open>
  The notions the claims are worded in, defined from their words and compared below with
  the functions above. A text matches a keyword set when some keyword of the set is found
  in its lower-cased form, between word boundaries.
\<close>

definition matches_any :: "string list \<Rightarrow> string \<Rightarrow> bool" where
  "matches_any kws txt = list_ex (\<lambda>keyword. search_word keyword (lower txt)) kws"

text \<open>
  The strategies of structured extraction, as lists of candidate texts: the whole
  response, then the stripped lines that start with an opening and end with a closing
  brace, then the fenced blocks. \<open>parses\<close> is a parse that succeeded, whatever a failed
  one raised; \<open>first_parse\<close> is the first candidate that parses; \<open>later_strategies\<close> is
  what the second and third strategy give, the parse-error result when they give nothing.
\<close>

definition parses :: "(string \<Rightarrow> py_exn + pyval) \<Rightarrow> string \<Rightarrow> pyval option" where
  "parses loads s = (case loads s of Inr v \<Rightarrow> Some v | Inl e \<Rightarrow> None)"

definition brace_lines :: "string \<Rightarrow> string list" where
  "brace_lines response_text =
     filter (\<lambda>l. startswith l ''{'' \<and> endswith l ''}'') (map strip (split_nl response_text))"

definition first_parse :: "(string \<Rightarrow> pyval option) \<Rightarrow> string list \<Rightarrow> pyval option" where
  "first_parse loads candidates =
     (case List.map_filter loads candidates of [] \<Rightarrow> None | v # _ \<Rightarrow> Some v)"

definition later_strategies :: "(string \<Rightarrow> py_exn + pyval) \<Rightarrow> string \<Rightarrow> pyval" where
  "later_strategies loads response_text =
     (case first_parse (parses loads)
             (brace_lines response_text @ fenced_blocks response_text) of
        Some v \<Rightarrow> v
      | None \<Rightarrow> parse_error_result)"

text \<open>
  The entries of a payload that become tool calls: for a payload that parses to a mapping
  whose \<^verbatim>\<open>tool_calls\<close> is an array, the entries of the array up to its first entry
  that is not a mapping. \<open>call_id\<close> reads the id of a normalized call, and
  \<open>number_calls n\<close> normalizes a list of entries with the ids counted from \<open>n\<close>.
\<close>

fun dict_prefix :: "pyval list \<Rightarrow> pydict list" where
  "dict_prefix [] = []"
| "dict_prefix (VDict d # entries) = d # dict_prefix entries"
| "dict_prefix (_ # entries) = []"

definition consumed_entries :: "(string \<Rightarrow> pyval option) \<Rightarrow> string \<Rightarrow> pydict list" where
  "consumed_entries loads json_block =
     (case loads json_block of
        Some (VDict d) \<Rightarrow>
          (case map_of d ''tool_calls'' of
             Some (VList entries) \<Rightarrow> dict_prefix entries
           | _ \<Rightarrow> [])
      | _ \<Rightarrow> [])"

definition call_id :: "pyval \<Rightarrow> string" where
  "call_id tc =
     (case tc of
        VDict d \<Rightarrow> (case map_of d ''id'' of Some (VStr s) \<Rightarrow> s | _ \<Rightarrow> [])
      | _ \<Rightarrow> [])"

definition number_calls :: "nat \<Rightarrow> pydict list \<Rightarrow> pyval list" where
  "number_calls n ds = map (\<lambda>(i, d). normalized_tool_call i d) (zip [n..<n + length ds] ds)"

section \<open>Properties of the orchestrator\<close>

subsection \<open>Configuration merge\<close>

lemma merge_items_map_of:
  "distinct (map fst ov) \<Longrightarrow>
   map_of (merge_items d ov) k =
     (case map_of ov k of
        None \<Rightarrow> map_of d k
      | Some v \<Rightarrow> Some (case (map_of d k, v) of
                         (Some (VDict dd), VDict vd) \<Rightarrow> VDict (merge_items dd vd)
                       | _ \<Rightarrow> v))"
proof (induction ov arbitrary: d)
  case Nil
  then show ?case by simp
next
  case (Cons a ov)
  obtain key v where a: "a = (key, v)" by (cases a)
  from Cons.prems a have nk: "map_of ov key = None" and dist: "distinct (map fst ov)"
    by (auto simp: map_of_eq_None_iff)
  show ?case
    unfolding a merge_items.simps
    apply (subst Cons.IH[OF dist])
    using nk
    apply (cases "k = key")
     apply (simp add: update_conv')
    apply (simp add: update_conv' split: option.splits)
    done
qed

lemma merge_items_keys: "fst ` set (merge_items d ov) = fst ` set d \<union> fst ` set ov"
  by (induction d ov rule: merge_items.induct) (auto simp: dom_update)

lemma merge_items_distinct:
  "distinct (map fst d) \<Longrightarrow> distinct (map fst (merge_items d ov))"
  by (induction d ov rule: merge_items.induct) (auto simp: distinct_update)

text \<open>
  C4. The merge is right-biased and recursive. For dictionaries (an override has each key
  once): a key of the override is mapped to the recursive merge when both sides hold a
  dictionary, and to the override's value otherwise; a key of the default alone keeps its
  default value; the keys of the result are those of the default and those of the
  override, so a key of the override alone is added.
\<close>

theorem merge_configs_right_biased_recursive:
  assumes "distinct (map fst override)"
  shows "map_of (merge_configs dflt override) k =
           (case map_of override k of
              None \<Rightarrow> map_of dflt k
            | Some v \<Rightarrow> Some (case (map_of dflt k, v) of
                               (Some (VDict dd), VDict vd) \<Rightarrow> VDict (merge_configs dd vd)
                             | _ \<Rightarrow> v))
         \<and> fst ` set (merge_configs dflt override) = fst ` set dflt \<union> fst ` set override"
  unfolding merge_configs_def
  using merge_items_map_of[OF assms, of dflt k] merge_items_keys[of dflt override]
  by simp

theorem merge_configs_right_biased_recursive_witness:
  "distinct (map fst [(''agent'', VDict [(''mode'', VStr ''multi'')]), (''extra'', VInt 1)])
   \<and> map_of (merge_configs
        [(''agent'', VDict [(''name'', VStr ''jafs''), (''mode'', VStr ''single'')]),
         (''tools'', VDict [(''enabled'', VList [])])]
        [(''agent'', VDict [(''mode'', VStr ''multi'')]), (''extra'', VInt 1)]) ''agent''
      = Some (VDict [(''name'', VStr ''jafs''), (''mode'', VStr ''multi'')])"
  using merge_configs_right_biased_recursive
    [of "[(''agent'', VDict [(''mode'', VStr ''multi'')]), (''extra'', VInt 1)]"
        "[(''agent'', VDict [(''name'', VStr ''jafs''), (''mode'', VStr ''single'')]),
          (''tools'', VDict [(''enabled'', VList [])])]"
        "''agent''"]
  by (simp add: merge_configs_def)

subsection \<open>Configuration loading\<close>

text \<open>
  C9. Loading a configuration always returns one and never raises; when the path does not
  exist, or reading or parsing the file raises, the configuration returned is the
  hard-coded default.
\<close>

theorem load_config_never_raises:
  "(\<exists>c. load_config path_exists file_yaml = Inr c)
   \<and> (\<not> path_exists \<or> (\<exists>e. file_yaml = Inl e)
        \<longrightarrow> load_config path_exists file_yaml = Inr default_config)"
  by (auto simp: load_config_def load_config_try_def split: sum.splits)

theorem load_config_never_raises_witness:
  "load_config True (Inl YAMLError) = Inr default_config
   \<and> load_config False (Inr (VDict [(''agent'', VDict [(''mode'', VStr ''multi'')])]))
       = Inr default_config"
  using load_config_never_raises [of True "Inl YAMLError"]
    load_config_never_raises
      [of False "Inr (VDict [(''agent'', VDict [(''mode'', VStr ''multi'')])])"]
  by simp

subsection \<open>Task history\<close>

lemma execute_task_appends:
  assumes "execute_task agent_execute t0 t1 orch tsk md_arg = Inr (res, orch')"
  shows "\<exists>r. task_history orch' = task_history orch @ [r] \<and> status r = ''completed''
              \<and> result r = res"
  using assms unfolding execute_task_def Let_def
  by (auto split: sum.splits)

lemma reachable_history_completed:
  assumes "reachable orch"
  shows "\<forall>r\<in>set (task_history orch). status r = ''completed''"
  using assms
proof (induction rule: reachable.induct)
  case (init cfg)
  then show ?case by (simp add: init_orchestrator_def)
next
  case (step orch agent_execute t0 t1 tsk md_arg res orch')
  from execute_task_appends[OF step.hyps(2)] obtain r where
    "task_history orch' = task_history orch @ [r]" "status r = ''completed''" by blast
  with step.IH show ?case by auto
qed

text \<open>
  C5. A call of \<^verbatim>\<open>execute_task\<close> that returns appends one record, whose status is
  the literal \<^verbatim>\<open>completed\<close> whatever result the agent gave; and in every state an
  orchestrator can reach, each record of the history has that status, so neither
  \<^verbatim>\<open>incomplete\<close> nor \<^verbatim>\<open>failed\<close> occurs.
\<close>

theorem task_history_status_completed:
  "(execute_task agent_execute t0 t1 orch tsk md_arg = Inr (res, orch') \<longrightarrow>
      (\<exists>r. task_history orch' = task_history orch @ [r] \<and> status r = ''completed''
            \<and> result r = res))
   \<and> (reachable orch \<longrightarrow>
        (\<forall>r\<in>set (task_history orch).
           status r = ''completed'' \<and> status r \<noteq> ''incomplete'' \<and> status r \<noteq> ''failed''))"
  using execute_task_appends reachable_history_completed by fastforce

theorem task_history_status_completed_witness:
  "reachable
     \<lparr>config = default_config, last_result = VDict [(''status'', VStr ''failed'')],
      task_history =
        [\<lparr>task = ''solve it'', mode = VStr ''single'', start_time = 5, execution_time = 2,
          status = ''completed'', result = VDict [(''status'', VStr ''failed'')]\<rparr>]\<rparr>
   \<and> map status (task_history
        \<lparr>config = default_config, last_result = VDict [(''status'', VStr ''failed'')],
         task_history =
           [\<lparr>task = ''solve it'', mode = VStr ''single'', start_time = 5, execution_time = 2,
             status = ''completed'', result = VDict [(''status'', VStr ''failed'')]\<rparr>]\<rparr>)
       = [''completed'']"
proof -
  let ?ag = "\<lambda>(tsk::string) (md::pyval).
               (Inr (VDict [(''status'', VStr ''failed'')]) :: py_exn + pyval)"
  let ?res = "VDict [(''status'', VStr ''failed'')]"
  let ?o = "\<lparr>config = default_config, last_result = VDict [(''status'', VStr ''failed'')],
            task_history =
              [\<lparr>task = ''solve it'', mode = VStr ''single'', start_time = 5,
                execution_time = 2, status = ''completed'',
                result = VDict [(''status'', VStr ''failed'')]\<rparr>]\<rparr>"
  have e: "execute_task ?ag 5 7 (init_orchestrator default_config) ''solve it'' None
             = Inr (?res, ?o)"
    by (simp add: execute_task_def resolve_mode_def init_orchestrator_def default_config_def
        py_get_def dict_get_def)
  have r: "reachable ?o"
    by (rule reachable.step[OF reachable.init e])
  from r task_history_status_completed
    [of ?ag 5 7 "init_orchestrator default_config" "''solve it''" None ?res ?o]
  show ?thesis by simp
qed

lemma get_task_history_positive:
  "0 < limit \<Longrightarrow>
   get_task_history orch limit
     = drop (length (task_history orch) - nat limit) (task_history orch)"
  unfolding get_task_history_def py_slice_from_def Let_def
  apply (auto simp: max_def)
  apply (rule arg_cong[where f="\<lambda>n. drop n _"])
  apply arith
  done

lemma get_task_history_zero: "get_task_history orch 0 = task_history orch"
  by (simp add: get_task_history_def py_slice_from_def)

text \<open>
  C6. For a positive limit the slice is the last \<open>min limit (length history)\<close> records
  (\<open>get_task_history_positive\<close>). At limit 0 the slice \<^verbatim>\<open>[-0:]\<close> is the whole list:
  with two records in the history, \<^verbatim>\<open>get_task_history(0)\<close> returns both of them and
  not the \<open>min 0 2 = 0\<close> records that a maximum of zero items allows.
\<close>

theorem get_task_history_limit_zero_returns_all:
  "get_task_history
     \<lparr>config = default_config, last_result = VNone,
      task_history =
        [\<lparr>task = ''a'', mode = VStr ''single'', start_time = 1, execution_time = 1,
          status = ''completed'', result = VNone\<rparr>,
         \<lparr>task = ''b'', mode = VStr ''multi'', start_time = 3, execution_time = 1,
          status = ''completed'', result = VNone\<rparr>]\<rparr> 0
   = [\<lparr>task = ''a'', mode = VStr ''single'', start_time = 1, execution_time = 1,
       status = ''completed'', result = VNone\<rparr>,
      \<lparr>task = ''b'', mode = VStr ''multi'', start_time = 3, execution_time = 1,
       status = ''completed'', result = VNone\<rparr>]"
  by (simp add: get_task_history_def py_slice_from_def)

section \<open>Properties of the classifier and of the tool\<close>

lemma scan_keywords_matches_any:
  "scan_keywords kws tsk new_mode cur_mode
     = (if matches_any kws tsk then new_mode else cur_mode)"
  by (induction kws) (auto simp: matches_any_def)

text \<open>
  C2. The classifier looks at research, then calculation, then creative keywords, and a
  later matching category overwrites an earlier one: creative gives \<^verbatim>\<open>multi\<close>, else
  calculation gives \<^verbatim>\<open>single\<close>, else research gives \<^verbatim>\<open>multi\<close>, else the mode
  is \<^verbatim>\<open>auto\<close>. A text matching a calculation keyword and no creative one yields
  \<^verbatim>\<open>single\<close>; one matching both yields \<^verbatim>\<open>multi\<close>.
\<close>

theorem detect_task_type_precedence:
  "detect_task_type tsk =
     (if matches_any creative_keywords tsk then ''multi''
      else if matches_any calc_keywords tsk then ''single''
      else if matches_any research_keywords tsk then ''multi''
      else ''auto'')
   \<and> (matches_any calc_keywords tsk \<and> \<not> matches_any creative_keywords tsk
        \<longrightarrow> detect_task_type tsk = ''single'')
   \<and> (matches_any calc_keywords tsk \<and> matches_any creative_keywords tsk
        \<longrightarrow> detect_task_type tsk = ''multi'')"
  by (simp add: detect_task_type_def scan_keywords_matches_any)

theorem detect_task_type_precedence_witness:
  "matches_any calc_keywords ''Calculate 2 + 2''
   \<and> \<not> matches_any creative_keywords ''Calculate 2 + 2''
   \<and> detect_task_type ''Calculate 2 + 2'' = ''single''
   \<and> matches_any calc_keywords ''calculate 2 + 2, then write it up''
   \<and> matches_any creative_keywords ''calculate 2 + 2, then write it up''
   \<and> detect_task_type ''calculate 2 + 2, then write it up'' = ''multi''"
proof -
  have a: "matches_any calc_keywords ''Calculate 2 + 2''" by code_simp
  have b: "\<not> matches_any creative_keywords ''Calculate 2 + 2''" by code_simp
  have c: "matches_any calc_keywords ''calculate 2 + 2, then write it up''" by code_simp
  have d: "matches_any creative_keywords ''calculate 2 + 2, then write it up''" by code_simp
  from a b c d detect_task_type_precedence [of "''Calculate 2 + 2''"]
    detect_task_type_precedence [of "''calculate 2 + 2, then write it up''"]
  show ?thesis by blast
qed

lemma any_keyword_matches_any: "any_keyword kws prompt = matches_any kws prompt"
  by (induction kws) (auto simp: matches_any_def)

text \<open>
  C10. For parameters whose prompt is a string (or absent, which stands for the empty
  string), \<^verbatim>\<open>_execute\<close> returns a result and does not raise. The result succeeds
  exactly when the prompt holds a creative keyword between word boundaries, whatever its
  case; a failure carries no data, a success carries the generated content.
\<close>

theorem execute_total:
  assumes "dict_get parameters ''prompt'' (VStr []) = VStr prompt"
  shows "\<exists>r. execute parameters = Inr r
             \<and> success r = matches_any tool_creative_keywords prompt
             \<and> (if matches_any tool_creative_keywords prompt
                then data r = VDict [(''content'',
                       VStr (''This is where the language model would generate a ''
                             @ determine_task_type prompt @ '' based on: '' @ prompt))]
                else data r = VNone)"
  using assms
  by (simp add: execute_def is_creative_task_def any_keyword_matches_any Let_def)

theorem execute_total_witness:
  "dict_get [(''prompt'', VStr ''calculate 2 + 2'')] ''prompt'' (VStr []) = VStr ''calculate 2 + 2''
   \<and> \<not> matches_any tool_creative_keywords ''calculate 2 + 2''
   \<and> (\<exists>r. execute [(''prompt'', VStr ''calculate 2 + 2'')] = Inr r \<and> \<not> success r \<and> data r = VNone)"
proof -
  have a: "dict_get [(''prompt'', VStr ''calculate 2 + 2'')] ''prompt'' (VStr [])
             = VStr ''calculate 2 + 2''"
    by (simp add: dict_get_def)
  have b: "\<not> matches_any tool_creative_keywords ''calculate 2 + 2''" by code_simp
  from execute_total [OF a] a b show ?thesis by auto
qed

section \<open>Properties of the extraction\<close>

lemma process_block_parse_failure: "loads b = None \<Longrightarrow> process_block loads st b = st"
  by (cases st) (simp add: process_block_def)

lemma foldl_process_block_all_fail:
  "\<forall>b\<in>set bs. loads b = None \<Longrightarrow> foldl (process_block loads) st bs = st"
  by (induction bs arbitrary: st) (simp_all add: process_block_parse_failure)

text \<open>
  C3. When every candidate payload of a completion fails to parse, extraction returns no
  tool call and the whole completion, stripped, as content. A payload that fails to parse
  is skipped wherever it stands: the payloads before and after it are processed as if it
  were not there.
\<close>

theorem extraction_tolerates_parse_failures:
  "((\<forall>b\<in>set (candidate_blocks loads dumps response_text). loads b = None)
      \<longrightarrow> extract_tool_calls loads dumps response_text = (strip response_text, []))
   \<and> (loads b = None
        \<longrightarrow> foldl (process_block loads) st (bs1 @ b # bs2)
            = foldl (process_block loads) st (bs1 @ bs2))"
  by (simp add: extract_tool_calls_def foldl_process_block_all_fail process_block_parse_failure)

theorem extraction_tolerates_parse_failures_witness:
  "candidate_blocks json_loads json_dumps ''Hi\<newline>```json\<newline>{oops\<newline>```\<newline>bye '' = [''{oops\<newline>'']
   \<and> json_loads ''{oops\<newline>'' = None
   \<and> extract_tool_calls json_loads json_dumps ''Hi\<newline>```json\<newline>{oops\<newline>```\<newline>bye ''
       = (''Hi\<newline>```json\<newline>{oops\<newline>```\<newline>bye'', [])"
proof -
  let ?t = "''Hi\<newline>```json\<newline>{oops\<newline>```\<newline>bye ''"
  have a: "candidate_blocks json_loads json_dumps ?t = [''{oops\<newline>'']" by code_simp
  have b: "json_loads ''{oops\<newline>'' = None" by code_simp
  have c: "strip ?t = ''Hi\<newline>```json\<newline>{oops\<newline>```\<newline>bye''" by code_simp
  from a b c extraction_tolerates_parse_failures [of json_loads json_dumps ?t]
  show ?thesis by simp
qed

subsection \<open>Structured extraction\<close>

lemma first_parse_Cons:
  "first_parse loads (c # cs) = (case loads c of Some v \<Rightarrow> Some v | None \<Rightarrow> first_parse loads cs)"
  by (simp add: first_parse_def List.map_filter_simps split: option.splits)

lemma first_parse_Nil: "first_parse loads [] = None"
  by (simp add: first_parse_def List.map_filter_simps)

lemma first_parse_append:
  "first_parse loads (xs @ ys)
     = (case first_parse loads xs of Some v \<Rightarrow> Some v | None \<Rightarrow> first_parse loads ys)"
  by (induction xs) (simp_all add: first_parse_Cons first_parse_Nil split: option.splits)

lemma try_blocks_first_parse: "try_blocks loads bs = first_parse (parses loads) bs"
  by (induction bs)
    (simp_all add: first_parse_Cons first_parse_Nil parses_def split: sum.splits)

lemma try_lines_first_parse:
  "try_lines loads ls
     = first_parse (parses loads)
         (filter (\<lambda>l. startswith l ''{'' \<and> endswith l ''}'') (map strip ls))"
  by (induction ls)
    (simp_all add: first_parse_Cons first_parse_Nil parses_def split: sum.splits)

text \<open>
  What \<^verbatim>\<open>extract_json\<close> does, for any behaviour of the decoder. A whole response that
  parses is returned. When its parse raises \<^verbatim>\<open>JSONDecodeError\<close> the result is the
  first successful parse among the lines in braces and then the fenced blocks, a candidate
  that fails in any way being passed over, and the parse-error result when none parses.
  When its parse raises anything else, \<^verbatim>\<open>extract_json\<close> raises it.
\<close>

lemma extract_json_strategy_order:
  "extract_json loads response_text =
     (case loads response_text of
        Inr v \<Rightarrow> Inr v
      | Inl e \<Rightarrow>
          if e = JSONDecodeError then Inr (later_strategies loads response_text)
          else Inl e)"
  by (simp add: extract_json_def later_strategies_def first_parse_append
      try_blocks_first_parse try_lines_first_parse brace_lines_def
      split: sum.splits option.splits)

text \<open>
  One completion for each way out: the whole response parses; a line in braces parses, and
  is taken before the fenced block that follows it; only a fenced block parses; nothing
  parses.
\<close>

lemma extract_json_examples:
  "extract_json json_loads_exn '' [1, 2] '' = Inr (VList [VInt 1, VInt 2])"
  "extract_json json_loads_exn
     ''Here it is:\<newline>  {\"a\": 1} \<newline>```\<newline>[2]\<newline>```''
     = Inr (VDict [(''a'', VInt 1)])"
  "extract_json json_loads_exn
     ''Here it is:\<newline>{\"a\": 1,}\<newline>```json\<newline>{\"b\":\<newline> [2]}\<newline>```''
     = Inr (VDict [(''b'', VList [VInt 2])])"
  "extract_json json_loads_exn ''no data'' = Inr parse_error_result"
  by code_simp+

lemma lex_word_run:
  "is_wordish c \<Longrightarrow> lex (LWord w) (replicate n c) = [word_token (w @ replicate n c)]"
proof (induction n arbitrary: w)
  case 0
  then show ?case by simp
next
  case (Suc n)
  have "lex (LWord w) (replicate (Suc n) c) = lex (LWord (w @ [c])) (replicate n c)"
    using Suc.prems by simp
  also have "\<dots> = [word_token ((w @ [c]) @ replicate n c)]"
    using Suc.prems by (rule Suc.IH)
  finally show ?case by simp
qed

lemma number_token_long_integer:
  assumes "max_str_digits < n"
  shows "number_token (replicate n (CHR ''1'')) = TRaise ValueError"
proof -
  let ?w = "replicate n (CHR ''1'')"
  from assms have n: "0 < n" by simp
  then have nonempty: "?w \<noteq> []" and h: "hd ?w = CHR ''1''"
    by simp_all
  have d: "is_digit (CHR ''1'')"
    by (simp add: is_digit_def)
  have ip: "int_part ?w = ?w"
    using nonempty h d by (simp add: int_part_def del: replicate_eq_replicate)
  have fr: "frac_part [] = []" and ex: "exp_part [] = []"
    by (simp_all add: frac_part_def exp_part_def)
  show ?thesis
    unfolding number_token_def Let_def
    using nonempty h ip fr ex assms by simp
qed

lemma word_token_long_integer:
  assumes "max_str_digits < n"
  shows "word_token (replicate n (CHR ''1'')) = TRaise ValueError"
proof -
  from assms have "0 < n" by simp
  then have "hd (replicate n (CHR ''1'')) = CHR ''1''" by simp
  then have "replicate n (CHR ''1'') \<noteq> ''true''" "replicate n (CHR ''1'') \<noteq> ''false''"
    "replicate n (CHR ''1'') \<noteq> ''null''" "replicate n (CHR ''1'') \<noteq> ''NaN''"
    "replicate n (CHR ''1'') \<noteq> ''Infinity''" "replicate n (CHR ''1'') \<noteq> ''-Infinity''"
    by auto
  then show ?thesis
    using number_token_long_integer[OF assms] by (simp add: word_token_def)
qed

lemma json_loads_exn_long_integer:
  assumes "max_str_digits < n"
  shows "json_loads_exn (replicate n (CHR ''1'')) = Inl ValueError"
proof -
  from assms obtain m where n: "n = Suc m" by (cases n) simp_all
  have w: "is_wordish (CHR ''1'')"
    by (simp add: is_wordish_def)
  have sc: "start_char (CHR ''1'') = Some ([], LWord [CHR ''1''])"
    by (simp add: start_char_def is_wordish_def)
  have "lex LStart (replicate n (CHR ''1'')) = lex (LWord [CHR ''1'']) (replicate m (CHR ''1''))"
    by (simp add: n sc)
  also have "\<dots> = [word_token ([CHR ''1''] @ replicate m (CHR ''1''))]"
    by (rule lex_word_run[OF w])
  also have "\<dots> = [word_token (replicate n (CHR ''1''))]"
    by (simp add: n)
  also have "\<dots> = [TRaise ValueError]"
    by (simp add: word_token_long_integer[OF assms])
  finally show ?thesis
    by (simp add: json_loads_exn_def)
qed

text \<open>
  C8. A response that is one integer of 4301 digits: \<^verbatim>\<open>json.loads\<close> raises
  \<^verbatim>\<open>ValueError\<close> on it, which the clause \<^verbatim>\<open>except json.JSONDecodeError\<close>
  around the parse of the whole response does not catch, so \<^verbatim>\<open>extract_json\<close> raises
  where the claim has it return the parse-error result. Under the bare \<^verbatim>\<open>except\<close> of
  the other parses the same text is a candidate that failed, nothing more.
\<close>

theorem extract_json_value_error_escapes:
  "json_loads_exn (replicate 4301 (CHR ''1'')) = Inl ValueError
   \<and> extract_json json_loads_exn (replicate 4301 (CHR ''1'')) = Inl ValueError
   \<and> json_loads (replicate 4301 (CHR ''1'')) = None"
proof -
  have "max_str_digits < 4301"
    by (simp add: max_str_digits_def)
  then have "json_loads_exn (replicate 4301 (CHR ''1'')) = Inl ValueError"
    by (rule json_loads_exn_long_integer)
  then show ?thesis
    by (simp add: extract_json_strategy_order json_loads_def)
qed

subsection \<open>Numbering of the tool calls\<close>

lemma number_calls_Nil: "number_calls n [] = []"
  by (simp add: number_calls_def)

lemma upt_shift: "[n..<n + Suc k] = n # [Suc n..<Suc n + k]"
  by (simp add: upt_conv_Cons del: upt_Suc)

lemma number_calls_Cons:
  "number_calls n (d # ds) = normalized_tool_call n d # number_calls (Suc n) ds"
  unfolding number_calls_def length_Cons upt_shift by simp

lemma number_calls_append:
  "number_calls n (xs @ ys) = number_calls n xs @ number_calls (n + length xs) ys"
  by (induction xs arbitrary: n) (simp_all add: number_calls_Nil number_calls_Cons)

lemma length_number_calls: "length (number_calls n ds) = length ds"
  by (simp add: number_calls_def)

lemma nth_number_calls:
  "i < length ds \<Longrightarrow> number_calls n ds ! i = normalized_tool_call (n + i) (ds ! i)"
  by (simp add: number_calls_def)

lemma normalize_calls_fst:
  "fst (normalize_calls tcs entries) = tcs @ number_calls (length tcs) (dict_prefix entries)"
proof (induction entries arbitrary: tcs)
  case Nil
  then show ?case by (simp add: number_calls_Nil)
next
  case (Cons e entries)
  show ?case
    by (cases e) (simp_all add: Cons.IH number_calls_Nil number_calls_Cons)
qed

lemma dict_prefix_strs: "dict_prefix (map (\<lambda>x. VStr (f x)) xs) = []"
  by (cases xs) simp_all

lemma process_block_fst:
  "fst (process_block loads (tcs, cont) b)
     = tcs @ number_calls (length tcs) (consumed_entries loads b)"
proof (cases "loads b")
  case None
  then show ?thesis
    by (simp add: process_block_def consumed_entries_def number_calls_Nil)
next
  case (Some dat)
  show ?thesis
  proof (cases dat)
    case (VDict d)
    show ?thesis
    proof (cases "map_of d ''tool_calls''")
      case None
      with Some VDict show ?thesis
        by (simp add: process_block_def consumed_entries_def number_calls_Nil py_contains_def)
    next
      case (Some v)
      have it: "\<And>entries. py_iter v = Inr entries \<Longrightarrow>
                  dict_prefix entries = (case v of VList es \<Rightarrow> dict_prefix es | _ \<Rightarrow> [])"
        by (cases v) (auto simp: py_iter_def dict_prefix_strs)
      have ce: "consumed_entries loads b = (case v of VList es \<Rightarrow> dict_prefix es | _ \<Rightarrow> [])"
        using \<open>loads b = Some dat\<close> VDict Some by (simp add: consumed_entries_def)
      show ?thesis
      proof (cases "py_iter v")
        case (Inl e)
        then have "(case v of VList es \<Rightarrow> dict_prefix es | _ \<Rightarrow> []) = []"
          by (cases v) (auto simp: py_iter_def)
        with Inl \<open>loads b = Some dat\<close> VDict Some ce show ?thesis
          by (simp add: process_block_def py_contains_def py_subscript_def number_calls_Nil)
      next
        case (Inr entries)
        obtain tcs' ex where nc: "normalize_calls tcs entries = (tcs', ex)"
          by (cases "normalize_calls tcs entries")
        have "tcs' = tcs @ number_calls (length tcs) (dict_prefix entries)"
          using normalize_calls_fst[of tcs entries] nc by simp
        with Inr nc \<open>loads b = Some dat\<close> VDict Some ce it[OF Inr] show ?thesis
          by (cases ex) (simp_all add: process_block_def py_contains_def py_subscript_def)
      qed
    qed
  qed (use Some in \<open>auto simp: process_block_def consumed_entries_def number_calls_Nil
        py_contains_def py_subscript_def split: sum.splits bool.splits\<close>)
qed

lemma digit_val_digit_char: "d < 10 \<Longrightarrow> digit_val (digit_char d) = d"
proof -
  assume "d < 10"
  then consider "d = 0" | "d = 1" | "d = 2" | "d = 3" | "d = 4" | "d = 5" | "d = 6"
    | "d = 7" | "d = 8" | "d = 9"
    by atomize_elim arith
  then show ?thesis
    by cases (simp_all add: digit_val_def digit_char_def)
qed

lemma nat_of_digits_snoc: "nat_of_digits (ds @ [c]) = 10 * nat_of_digits ds + digit_val c"
  by (simp add: nat_of_digits_def)

lemma nat_of_digits_single: "nat_of_digits [c] = digit_val c"
  by (simp add: nat_of_digits_def)

lemma nat_of_digits_str_of_nat: "nat_of_digits (str_of_nat n) = n"
proof (induction n rule: str_of_nat.induct)
  case (1 n)
  show ?case
  proof (cases "n < 10")
    case True
    then have "str_of_nat n = [digit_char n]"
      by (subst str_of_nat.simps) simp
    with True show ?thesis
      by (simp add: nat_of_digits_single digit_val_digit_char)
  next
    case False
    then have "str_of_nat n = str_of_nat (n div 10) @ [digit_char (n mod 10)]"
      by (subst str_of_nat.simps) simp
    moreover have "nat_of_digits (str_of_nat (n div 10)) = n div 10"
      using False by (rule "1.IH")
    moreover have "digit_val (digit_char (n mod 10)) = n mod 10"
      by (rule digit_val_digit_char) simp
    ultimately show ?thesis
      by (simp add: nat_of_digits_snoc)
  qed
qed

lemma str_of_nat_inj: "str_of_nat m = str_of_nat n \<Longrightarrow> m = n"
  by (metis nat_of_digits_str_of_nat)

lemma call_id_normalized: "call_id (normalized_tool_call n d) = ''call_'' @ str_of_nat n"
  by (simp add: call_id_def normalized_tool_call_def)

lemma map_call_id_number_calls:
  "map call_id (number_calls n ds) = map (\<lambda>i. ''call_'' @ str_of_nat i) [n..<n + length ds]"
proof (induction ds arbitrary: n)
  case Nil
  then show ?case by (simp add: number_calls_Nil)
next
  case (Cons d ds)
  show ?case
    unfolding length_Cons upt_shift number_calls_Cons
    by (simp add: call_id_normalized Cons.IH del: upt_Suc)
qed

lemma distinct_call_ids: "distinct (map call_id (number_calls n ds))"
proof -
  have "inj_on (\<lambda>i. ''call_'' @ str_of_nat i) (set [n..<n + length ds])"
    by (auto simp: inj_on_def dest: str_of_nat_inj)
  then show ?thesis
    by (simp add: map_call_id_number_calls distinct_map)
qed

lemma foldl_process_block_fst:
  "fst (foldl (process_block loads) (tcs, cont) bs)
     = tcs @ number_calls (length tcs) (concat (map (consumed_entries loads) bs))"
proof (induction bs arbitrary: tcs cont)
  case Nil
  then show ?case by (simp add: number_calls_Nil)
next
  case (Cons b bs)
  obtain tcs' cont' where pb: "process_block loads (tcs, cont) b = (tcs', cont')"
    by (cases "process_block loads (tcs, cont) b")
  have t: "tcs' = tcs @ number_calls (length tcs) (consumed_entries loads b)"
    using process_block_fst[of loads tcs cont b] pb by simp
  show ?case
    by (simp add: pb Cons.IH t number_calls_append length_number_calls)
qed

lemma extract_tool_calls_snd:
  "snd (extract_tool_calls loads dumps response_text)
     = number_calls 0 (concat (map (consumed_entries loads)
                                 (candidate_blocks loads dumps response_text)))"
proof -
  obtain tcs cont where f: "foldl (process_block loads) ([], response_text)
      (candidate_blocks loads dumps response_text) = (tcs, cont)"
    by (cases "foldl (process_block loads) ([], response_text)
      (candidate_blocks loads dumps response_text)")
  from foldl_process_block_fst[of loads "[]" response_text
      "candidate_blocks loads dumps response_text"] f
  show ?thesis by (simp add: extract_tool_calls_def)
qed

text \<open>
  C7, as the code has it. For every completion the extracted calls are, in the order of
  the candidate payloads, the normalized entries of each parsed mapping payload's
  \<^verbatim>\<open>tool_calls\<close> array up to the first entry of that array which is not a mapping.
  The call at position \<open>i\<close> of the whole completion has the id \<^verbatim>\<open>call_i\<close>, so
  the counter is not reset between payloads and the ids are distinct and in order; its
  name is the entry's, or the empty string when absent, and its arguments are the
  entry's, or the empty mapping when absent.
\<close>

theorem tool_call_ids_sequential:
  "length (snd (extract_tool_calls loads dumps response_text))
     = length (concat (map (consumed_entries loads)
                         (candidate_blocks loads dumps response_text)))
   \<and> (\<forall>i < length (snd (extract_tool_calls loads dumps response_text)).
        snd (extract_tool_calls loads dumps response_text) ! i
          = VDict [(''id'', VStr (''call_'' @ str_of_nat i)),
                   (''name'',
                    dict_get (concat (map (consumed_entries loads)
                       (candidate_blocks loads dumps response_text)) ! i) ''name'' (VStr [])),
                   (''arguments'',
                    dict_get (concat (map (consumed_entries loads)
                       (candidate_blocks loads dumps response_text)) ! i)
                      ''arguments'' (VDict []))])
   \<and> distinct (map call_id (snd (extract_tool_calls loads dumps response_text)))"
  unfolding extract_tool_calls_snd
  by (simp add: length_number_calls nth_number_calls distinct_call_ids normalized_tool_call_def)
theorem tool_call_ids_sequential_witness:
  "length (snd (extract_tool_calls json_loads json_dumps
     ''```json\<newline>{\"tool_calls\": [{\"name\": \"a\"}]}\<newline>```\<newline>then\<newline>```\<newline>{\"tool_calls\": [{\"arguments\": {\"q\": 1}}, {}]}\<newline>```'')) = 3
   \<and> snd (extract_tool_calls json_loads json_dumps
     ''```json\<newline>{\"tool_calls\": [{\"name\": \"a\"}]}\<newline>```\<newline>then\<newline>```\<newline>{\"tool_calls\": [{\"arguments\": {\"q\": 1}}, {}]}\<newline>```'') ! 0
       = VDict [(''id'', VStr ''call_0''), (''name'', VStr ''a''), (''arguments'', VDict [])]
   \<and> snd (extract_tool_calls json_loads json_dumps
     ''```json\<newline>{\"tool_calls\": [{\"name\": \"a\"}]}\<newline>```\<newline>then\<newline>```\<newline>{\"tool_calls\": [{\"arguments\": {\"q\": 1}}, {}]}\<newline>```'') ! 1
       = VDict [(''id'', VStr ''call_1''), (''name'', VStr []),
                (''arguments'', VDict [(''q'', VInt 1)])]
   \<and> snd (extract_tool_calls json_loads json_dumps
     ''```json\<newline>{\"tool_calls\": [{\"name\": \"a\"}]}\<newline>```\<newline>then\<newline>```\<newline>{\"tool_calls\": [{\"arguments\": {\"q\": 1}}, {}]}\<newline>```'') ! 2
       = VDict [(''id'', VStr ''call_2''), (''name'', VStr []), (''arguments'', VDict [])]"
proof -
  let ?t = "''```json\<newline>{\"tool_calls\": [{\"name\": \"a\"}]}\<newline>```\<newline>then\<newline>```\<newline>{\"tool_calls\": [{\"arguments\": {\"q\": 1}}, {}]}\<newline>```''"
  let ?es = "[[(''name'', VStr ''a'')], [(''arguments'', VDict [(''q'', VInt 1)])], []] :: pydict list"
  have es: "concat (map (consumed_entries json_loads) (candidate_blocks json_loads json_dumps ?t))
              = ?es"
    by code_simp
  have s: "str_of_nat 0 = ''0''" "str_of_nat 1 = ''1''" "str_of_nat 2 = ''2''"
    by code_simp+
  from tool_call_ids_sequential [of json_loads json_dumps ?t]
  have len: "length (snd (extract_tool_calls json_loads json_dumps ?t)) = 3"
    and nth: "\<And>i. i < 3 \<Longrightarrow> snd (extract_tool_calls json_loads json_dumps ?t) ! i
          = VDict [(''id'', VStr (''call_'' @ str_of_nat i)),
                   (''name'', dict_get (?es ! i) ''name'' (VStr [])),
                   (''arguments'', dict_get (?es ! i) ''arguments'' (VDict []))]"
    unfolding es by simp_all
  show ?thesis
    using len nth[of 0] nth[of 1] nth[of 2] s by (simp add: dict_get_def)
qed

text \<open>
  C7, as stated, fails: not every entry of a parsed payload's array produces a call. In
  the payload below the array has two entries. The first is the number 5, which has no
  \<^verbatim>\<open>.get\<close>; the exception sends the loop to \<^verbatim>\<open>except: continue\<close>, and the
  mapping after it is not visited either. No call is extracted.
\<close>

theorem non_mapping_entry_counterexample:
  "fenced_blocks ''```json\<newline>{\"tool_calls\": [5, {\"name\": \"b\"}]}\<newline>```''
     = [''{\"tool_calls\": [5, {\"name\": \"b\"}]}\<newline>'']
   \<and> json_loads ''{\"tool_calls\": [5, {\"name\": \"b\"}]}\<newline>''
       = Some (VDict [(''tool_calls'', VList [VInt 5, VDict [(''name'', VStr ''b'')]])])
   \<and> snd (extract_tool_calls json_loads json_dumps
        ''```json\<newline>{\"tool_calls\": [5, {\"name\": \"b\"}]}\<newline>```'') = []"
  by code_simp

text \<open>
  C1. On a completion that is one fenced block holding one tool call, extraction gives the
  single call \<^verbatim>\<open>call_0\<close>, and the content returned is the whole completion, the
  fenced block and its markers included. The text that \<^verbatim>\<open>replace\<close> looks for is the
  opening marker, the block, a newline and the closing marker; the block already ends
  with the newline of its last line, so the text looked for has two newlines before the
  closing marker where the completion has one, and nothing is removed.
\<close>

theorem fenced_block_not_removed:
  "extract_tool_calls json_loads json_dumps
     ''```json\<newline>{\"tool_calls\": [{\"name\": \"search\", \"arguments\": {\"q\": \"cats\"}}]}\<newline>```''
   = (''```json\<newline>{\"tool_calls\": [{\"name\": \"search\", \"arguments\": {\"q\": \"cats\"}}]}\<newline>```'',
      [VDict [(''id'', VStr ''call_0''), (''name'', VStr ''search''),
              (''arguments'', VDict [(''q'', VStr ''cats'')])]])"
  by code_simp

end
